theory Spec2Isabelle
  imports Complex_Main
begin

section \<open>Numbers\<close>

text \<open>
  Every TypeScript \<open>number\<close> of the program is modelled as a \<open>real\<close>: the arithmetic
  is the exact one, without the rounding of IEEE doubles and without NaN or
  Infinity. Timestamps are milliseconds since the Unix epoch, as \<open>Date.now()\<close>
  returns them; the reading of the wall clock is an explicit argument \<open>now\<close> of
  every operation that calls \<open>Date.now()\<close>.

  Where the program divides by 0 or takes the square root of a negative
  number, JavaScript continues with Infinity or NaN and HOL with a number:
  there the model and the program part ways. This needs an orbital or
  rotation period of 0, a path of 0 segments, or an eccentricity outside
  \<open>[0, 1)\<close>.
\<close>

section \<open>The time system (src/systems/timeSystem.ts)\<close>

datatype TimeMode = Static | Animation

datatype TimeScaleOption = Hour | Day | Week

record TimeSystem =
  timeMode :: TimeMode
  simulationStartTime :: real
  animationTimeScale :: real
  isPaused :: bool
  pausedTime :: real
  currentTimeScaleOption :: TimeScaleOption

text \<open>The field initialisers of the class; \<open>now\<close> is the clock at construction.\<close>

definition initTimeSystem :: "real \<Rightarrow> TimeSystem" where
  "initTimeSystem now =
     \<lparr>timeMode = Static,
      simulationStartTime = now,
      animationTimeScale = 7 * 24 * 60 * 60 * 1000,
      isPaused = False,
      pausedTime = 0,
      currentTimeScaleOption = Week\<rparr>"

definition getSimulationTime :: "TimeSystem \<Rightarrow> real \<Rightarrow> real" where
  "getSimulationTime s now =
     (if timeMode s = Static then now
      else if isPaused s then
        simulationStartTime s + pausedTime s * animationTimeScale s / 1000
      else
        (let realTimeElapsed = now - simulationStartTime s;
             simulationTimeElapsed = realTimeElapsed * animationTimeScale s / 1000
         in simulationStartTime s + simulationTimeElapsed))"

definition toggleTimeMode :: "TimeSystem \<Rightarrow> real \<Rightarrow> TimeSystem" where
  "toggleTimeMode s now =
     (if timeMode s = Static then
        s\<lparr>timeMode := Animation, simulationStartTime := now,
          isPaused := False, pausedTime := 0\<rparr>
      else
        s\<lparr>timeMode := Static, isPaused := False, pausedTime := 0\<rparr>)"

definition togglePause :: "TimeSystem \<Rightarrow> real \<Rightarrow> TimeSystem" where
  "togglePause s now =
     (if timeMode s \<noteq> Animation then s
      else if isPaused s then
        s\<lparr>simulationStartTime := now - pausedTime s, isPaused := False\<rparr>
      else
        s\<lparr>pausedTime := now - simulationStartTime s, isPaused := True\<rparr>)"

text \<open>The \<open>switch\<close> of \<open>setTimeScaleOption\<close>: simulated milliseconds per real second.\<close>

fun timeScaleOf :: "TimeScaleOption \<Rightarrow> real" where
  "timeScaleOf Hour = 60 * 60 * 1000"
| "timeScaleOf Day = 24 * 60 * 60 * 1000"
| "timeScaleOf Week = 7 * 24 * 60 * 60 * 1000"

definition setTimeScaleOption :: "TimeSystem \<Rightarrow> TimeScaleOption \<Rightarrow> real \<Rightarrow> TimeSystem" where
  "setTimeScaleOption s option now =
     (let s1 = s\<lparr>currentTimeScaleOption := option,
                  animationTimeScale := timeScaleOf option\<rparr>
      in if timeMode s1 = Animation \<and> \<not> isPaused s1 then
           s1\<lparr>simulationStartTime := now, pausedTime := 0\<rparr>
         else s1)"

text \<open>
  The vocabulary of the specification. The acceleration factor is counted in
  simulated milliseconds per real millisecond, the field \<open>animationTimeScale\<close>
  in simulated milliseconds per real second.
\<close>

definition accelerationFactor :: "TimeSystem \<Rightarrow> real" where
  "accelerationFactor s = animationTimeScale s / 1000"

definition acceleratedPaused :: "TimeSystem \<Rightarrow> bool" where
  "acceleratedPaused s = (timeMode s = Animation \<and> isPaused s)"

definition acceleratedRunning :: "TimeSystem \<Rightarrow> bool" where
  "acceleratedRunning s = (timeMode s = Animation \<and> \<not> isPaused s)"

section \<open>The data model (src/types/index.ts, src/data/celestialData.ts)\<close>

datatype Vector3 = Vector3 (vx: real) (vy: real) (vz: real)

text \<open>
  The interface \<open>CelestialBodyData\<close>. A field declared with \<open>?\<close> is an option;
  the display name (a non-ASCII string that no computation reads) is left out.
  The optional field \<open>distance\<close> is called \<open>bodyDistance\<close> here, since
  \<open>distance\<close> is also a field of the scale factors.
\<close>

record CelestialBodyData =
  radius :: real
  color :: nat
  semiMajorAxis :: "real option"
  eccentricity :: real
  inclination :: "real option"
  meanLongitude :: "real option"
  longitudePerihelion :: "real option"
  longitudeNode :: "real option"
  orbitalPeriod :: real
  rotationPeriod :: real
  bodyDistance :: "real option"
  scaleFactor :: "real option"
  axialTilt :: "real option"

record ScaleFactors =
  distance :: real
  planetSize :: real
  sunSize :: real

definition scaleFactors :: ScaleFactors where
  "scaleFactors = \<lparr>distance = 10, planetSize = 0.5, sunSize = 0.015\<rparr>"

text \<open>\<open>new Date('2000-01-01T12:00:00Z').getTime()\<close>, in milliseconds.\<close>

definition J2000_EPOCH :: real where
  "J2000_EPOCH = 946728000000"

datatype BodyKey =
  Sun | Mercury | Venus | Earth | Moon | Mars | Jupiter | Saturn | Uranus | Neptune | Pluto

fun celestialData :: "BodyKey \<Rightarrow> CelestialBodyData" where
  "celestialData Sun =
     \<lparr>radius = 109, color = 0xFDB813, semiMajorAxis = None, eccentricity = 0,
      inclination = None, meanLongitude = None, longitudePerihelion = None,
      longitudeNode = None, orbitalPeriod = 0, rotationPeriod = 25.4,
      bodyDistance = Some 0, scaleFactor = None, axialTilt = Some 7.25\<rparr>"
| "celestialData Mercury =
     \<lparr>radius = 0.383, color = 0x8C7853, semiMajorAxis = Some 0.38709927,
      eccentricity = 0.20563593, inclination = Some 7.00497902,
      meanLongitude = Some 252.25032350, longitudePerihelion = Some 77.45779628,
      longitudeNode = Some 48.33076593, orbitalPeriod = 87.9691,
      rotationPeriod = 58.6462, bodyDistance = None, scaleFactor = None,
      axialTilt = Some 0.034\<rparr>"
| "celestialData Venus =
     \<lparr>radius = 0.949, color = 0xFFC649, semiMajorAxis = Some 0.72333566,
      eccentricity = 0.00677672, inclination = Some 3.39467605,
      meanLongitude = Some 181.97909950, longitudePerihelion = Some 131.60246718,
      longitudeNode = Some 76.67984255, orbitalPeriod = 224.7008,
      rotationPeriod = - 243.0226, bodyDistance = None, scaleFactor = None,
      axialTilt = Some 177.4\<rparr>"
| "celestialData Earth =
     \<lparr>radius = 1, color = 0x6B93D6, semiMajorAxis = Some 1.00000261,
      eccentricity = 0.01671123, inclination = Some (- 0.00001531),
      meanLongitude = Some 100.46457166, longitudePerihelion = Some 102.93768193,
      longitudeNode = Some 0.0, orbitalPeriod = 365.25636,
      rotationPeriod = 1.0, bodyDistance = None, scaleFactor = None,
      axialTilt = Some 23.44\<rparr>"
| "celestialData Moon =
     \<lparr>radius = 0.273, color = 0xC0C0C0, semiMajorAxis = Some 0.00257,
      eccentricity = 0.0549, inclination = Some 5.145,
      meanLongitude = Some 218.3164477, longitudePerihelion = Some 83.3532465,
      longitudeNode = Some 125.1228870, orbitalPeriod = 27.321661,
      rotationPeriod = 27.321661, bodyDistance = None, scaleFactor = Some 1.8,
      axialTilt = Some 6.68\<rparr>"
| "celestialData Mars =
     \<lparr>radius = 0.532, color = 0xCD5C5C, semiMajorAxis = Some 1.52371034,
      eccentricity = 0.09339410, inclination = Some 1.84969142,
      meanLongitude = Some (- 4.55343205), longitudePerihelion = Some (- 23.94362959),
      longitudeNode = Some 49.55953891, orbitalPeriod = 686.971,
      rotationPeriod = 1.025957, bodyDistance = None, scaleFactor = None,
      axialTilt = Some 25.19\<rparr>"
| "celestialData Jupiter =
     \<lparr>radius = 11.21, color = 0xD8CA9D, semiMajorAxis = Some 5.20288700,
      eccentricity = 0.04838624, inclination = Some 1.30439695,
      meanLongitude = Some 34.39644051, longitudePerihelion = Some 14.72847983,
      longitudeNode = Some 100.47390909, orbitalPeriod = 4332.59,
      rotationPeriod = 0.41354, bodyDistance = None, scaleFactor = Some 0.3,
      axialTilt = Some 3.13\<rparr>"
| "celestialData Saturn =
     \<lparr>radius = 9.45, color = 0xFAD5A5, semiMajorAxis = Some 9.53667594,
      eccentricity = 0.05386179, inclination = Some 2.48599187,
      meanLongitude = Some 49.95424423, longitudePerihelion = Some 92.59887831,
      longitudeNode = Some 113.66242448, orbitalPeriod = 10759.22,
      rotationPeriod = 0.44401, bodyDistance = None, scaleFactor = Some 0.35,
      axialTilt = Some 26.73\<rparr>"
| "celestialData Uranus =
     \<lparr>radius = 4.01, color = 0x4FD0E3, semiMajorAxis = Some 19.18916464,
      eccentricity = 0.04725744, inclination = Some 0.77263783,
      meanLongitude = Some 313.23810451, longitudePerihelion = Some 170.95427630,
      longitudeNode = Some 74.01692503, orbitalPeriod = 30688.5,
      rotationPeriod = - 0.71833, bodyDistance = None, scaleFactor = Some 0.5,
      axialTilt = Some 97.77\<rparr>"
| "celestialData Neptune =
     \<lparr>radius = 3.88, color = 0x4B70DD, semiMajorAxis = Some 30.06992276,
      eccentricity = 0.00859048, inclination = Some 1.77004347,
      meanLongitude = Some (- 55.12002969), longitudePerihelion = Some 44.96476227,
      longitudeNode = Some 131.78422574, orbitalPeriod = 60182,
      rotationPeriod = 0.6713, bodyDistance = None, scaleFactor = Some 0.5,
      axialTilt = Some 28.32\<rparr>"
| "celestialData Pluto =
     \<lparr>radius = 0.186, color = 0xA0522D, semiMajorAxis = Some 39.48211675,
      eccentricity = 0.24880766, inclination = Some 17.14001206,
      meanLongitude = Some 238.92903833, longitudePerihelion = Some 224.06891629,
      longitudeNode = Some 110.30393684, orbitalPeriod = 90560,
      rotationPeriod = 6.387230, bodyDistance = None, scaleFactor = Some 5.0,
      axialTilt = Some 122.53\<rparr>"

section \<open>The orbital mathematics (src/utils/orbitalMath.ts)\<close>

text \<open>
  \<open>v || 0\<close> on an optional number: the value, and 0 when it is undefined
  (or 0). On a number that is always present it changes nothing.
\<close>

definition orZero :: "real option \<Rightarrow> real" where
  "orZero v = (case v of None \<Rightarrow> 0 | Some a \<Rightarrow> if a = 0 then 0 else a)"

definition numOrZero :: "real \<Rightarrow> real" where
  "numOrZero a = (if a = 0 then 0 else a)"

text \<open>
  \<open>Math.atan2(y, x)\<close> as ECMAScript defines it on finite arguments, without
  the sign of zero: the angle of the point \<open>(x, y)\<close> in \<open>(-\<pi>, \<pi>]\<close>.
\<close>

definition atan2 :: "real \<Rightarrow> real \<Rightarrow> real" where
  "atan2 b a =
     (if 0 < a then arctan (b / a)
      else if a < 0 then (if 0 \<le> b then arctan (b / a) + pi else arctan (b / a) - pi)
      else if 0 < b then pi / 2
      else if b < 0 then - (pi / 2)
      else 0)"

text \<open>
  The loop that solves Kepler's equation, the same text in
  \<open>calculatePlanetPosition\<close> and \<open>calculateMoonPosition\<close>: \<open>i\<close> is the loop
  counter, \<open>E\<close> the variable \<open>eccentricAnomaly\<close>, and the result is its value
  when the loop is left, by \<open>break\<close> or by \<open>i = 10\<close>.
\<close>

function keplerLoop :: "nat \<Rightarrow> real \<Rightarrow> real \<Rightarrow> real \<Rightarrow> real" where
  "keplerLoop i ecc meanAnomaly E =
     (if i < 10 then
        (let deltaE = (E - ecc * sin E - meanAnomaly) / (1 - ecc * cos E);
             E' = E - deltaE
         in if \<bar>deltaE\<bar> < 1 / 100000000 then E'
            else keplerLoop (Suc i) ecc meanAnomaly E')
      else E)"
  by pat_completeness auto
termination
  by (relation "measure (\<lambda>(i, ecc, meanAnomaly, E). 10 - i)") auto

declare keplerLoop.simps [simp del]

definition calculatePlanetPosition :: "CelestialBodyData \<Rightarrow> real \<Rightarrow> Vector3" where
  "calculatePlanetPosition data time =
     (let daysSinceJ2000 = (time - J2000_EPOCH) / (1000 * 60 * 60 * 24);
          semiMajorAxis' = orZero (semiMajorAxis data) * distance scaleFactors;
          eccentricity' = numOrZero (eccentricity data);
          inclination' = orZero (inclination data) * pi / 180;
          meanLongitudeAtEpoch = orZero (meanLongitude data) * pi / 180;
          longitudePerihelion' = orZero (longitudePerihelion data) * pi / 180;
          longitudeNode' = orZero (longitudeNode data) * pi / 180;
          meanMotion = (2 * pi) / orbitalPeriod data;
          meanLongitude' = meanLongitudeAtEpoch + meanMotion * daysSinceJ2000;
          meanAnomaly = meanLongitude' - longitudePerihelion';
          eccentricAnomaly = keplerLoop 0 eccentricity' meanAnomaly meanAnomaly;
          trueAnomaly = 2 * atan2
            (sqrt (1 + eccentricity') * sin (eccentricAnomaly / 2))
            (sqrt (1 - eccentricity') * cos (eccentricAnomaly / 2));
          radius' = semiMajorAxis' * (1 - eccentricity' * cos eccentricAnomaly);
          argumentPerihelion = longitudePerihelion' - longitudeNode';
          u = trueAnomaly + argumentPerihelion;
          cosU = cos u; sinU = sin u;
          cosI = cos inclination'; sinI = sin inclination';
          cosO = cos longitudeNode'; sinO = sin longitudeNode';
          x = radius' * (cosO * cosU - sinO * sinU * cosI);
          y = radius' * (sinO * cosU + cosO * sinU * cosI);
          z = radius' * (sinU * sinI)
      in Vector3 x z y)"

definition calculateRotationAngle :: "CelestialBodyData \<Rightarrow> real \<Rightarrow> real" where
  "calculateRotationAngle data time =
     (let daysSinceJ2000 = (time - J2000_EPOCH) / (1000 * 60 * 60 * 24);
          rotationAngle = (daysSinceJ2000 / \<bar>rotationPeriod data\<bar>) * 2 * pi
      in if rotationPeriod data > 0 then rotationAngle else - rotationAngle)"

text \<open>The local \<open>moonDistance\<close> of \<open>calculateMoonPosition\<close>.\<close>

definition calculateMoonPosition_moonDistance :: "CelestialBodyData \<Rightarrow> real" where
  "calculateMoonPosition_moonDistance moonData =
     orZero (semiMajorAxis moonData) * distance scaleFactors * 45"

definition calculateMoonPosition :: "CelestialBodyData \<Rightarrow> Vector3 \<Rightarrow> real \<Rightarrow> Vector3" where
  "calculateMoonPosition moonData earthPosition time =
     (let daysSinceJ2000 = (time - J2000_EPOCH) / (1000 * 60 * 60 * 24);
          moonDistance = calculateMoonPosition_moonDistance moonData;
          eccentricity' = numOrZero (eccentricity moonData);
          inclination' = orZero (inclination moonData) * pi / 180;
          meanLongitudeAtEpoch = orZero (meanLongitude moonData) * pi / 180;
          longitudePerihelion' = orZero (longitudePerihelion moonData) * pi / 180;
          meanMotion = (2 * pi) / orbitalPeriod moonData;
          meanLongitude' = meanLongitudeAtEpoch + meanMotion * daysSinceJ2000;
          meanAnomaly = meanLongitude' - longitudePerihelion';
          eccentricAnomaly = keplerLoop 0 eccentricity' meanAnomaly meanAnomaly;
          trueAnomaly = 2 * atan2
            (sqrt (1 + eccentricity') * sin (eccentricAnomaly / 2))
            (sqrt (1 - eccentricity') * cos (eccentricAnomaly / 2));
          radius' = moonDistance * (1 - eccentricity' * cos eccentricAnomaly);
          moonRelativeX = radius' * cos trueAnomaly;
          moonRelativeZ = radius' * sin trueAnomaly * cos inclination';
          moonRelativeY = radius' * sin trueAnomaly * sin inclination'
      in Vector3 (vx earthPosition + moonRelativeX)
                 (vy earthPosition + moonRelativeY)
                 (vz earthPosition + moonRelativeZ))"

text \<open>
  The body of the loop of \<open>generateOrbitPath\<close> at counter \<open>i\<close>, and the loop,
  which pushes one point for every \<open>i\<close> with \<open>i <= segments\<close>. The number of
  segments is a natural number, as at the call site (256).
\<close>

definition orbitPathPoint :: "CelestialBodyData \<Rightarrow> nat \<Rightarrow> nat \<Rightarrow> Vector3" where
  "orbitPathPoint data segments i =
     (let semiMajorAxis' = orZero (semiMajorAxis data) * distance scaleFactors;
          eccentricity' = numOrZero (eccentricity data);
          inclination' = orZero (inclination data) * pi / 180;
          longitudePerihelion' = orZero (longitudePerihelion data) * pi / 180;
          longitudeNode' = orZero (longitudeNode data) * pi / 180;
          argumentPerihelion = longitudePerihelion' - longitudeNode';
          trueAnomaly = (real i / real segments) * 2 * pi;
          radius' = semiMajorAxis' * (1 - eccentricity' * eccentricity') /
                    (1 + eccentricity' * cos trueAnomaly);
          u = trueAnomaly + argumentPerihelion;
          cosU = cos u; sinU = sin u;
          cosI = cos inclination'; sinI = sin inclination';
          cosO = cos longitudeNode'; sinO = sin longitudeNode';
          x = radius' * (cosO * cosU - sinO * sinU * cosI);
          y = radius' * (sinO * cosU + cosO * sinU * cosI);
          z = radius' * (sinU * sinI)
      in Vector3 x z y)"

function orbitPathLoop ::
  "CelestialBodyData \<Rightarrow> nat \<Rightarrow> nat \<Rightarrow> Vector3 list \<Rightarrow> Vector3 list" where
  "orbitPathLoop data segments i points =
     (if i \<le> segments then
        orbitPathLoop data segments (Suc i) (points @ [orbitPathPoint data segments i])
      else points)"
  by pat_completeness auto
termination
  by (relation "measure (\<lambda>(data, segments, i, points). Suc segments - i)") auto

declare orbitPathLoop.simps [simp del]

definition generateOrbitPath :: "CelestialBodyData \<Rightarrow> nat \<Rightarrow> Vector3 list" where
  "generateOrbitPath data segments = orbitPathLoop data segments 0 []"

section \<open>Creating the scene objects (class CelestialObjects)\<close>

text \<open>
  Of a mesh, the model keeps what the creation code computes from the table:
  the sphere radius, the \<open>userData\<close> and the initial position. The table the
  methods read is an argument here; the program reads the constant
  \<open>celestialData\<close>.
\<close>

record Mesh =
  sphereRadius :: real
  userData :: CelestialBodyData
  position :: Vector3

definition planetNames :: "BodyKey list" where
  "planetNames = [Mercury, Venus, Earth, Mars, Jupiter, Saturn, Uranus, Neptune, Pluto]"

text \<open>The callback of \<open>createPlanets\<close>, for one entry of the table.\<close>

definition createPlanet :: "CelestialBodyData \<Rightarrow> Mesh" where
  "createPlanet data =
     (let sizeAdjustment = (case scaleFactor data of None \<Rightarrow> 1
                            | Some f \<Rightarrow> if f = 0 then 1 else f);
          radius' = radius data * planetSize scaleFactors * sizeAdjustment;
          distance' = orZero (semiMajorAxis data) * distance scaleFactors
      in \<lparr>sphereRadius = radius', userData = data, position = Vector3 distance' 0 0\<rparr>)"

definition createPlanets :: "(BodyKey \<Rightarrow> CelestialBodyData) \<Rightarrow> Mesh list" where
  "createPlanets table = map (\<lambda>planetName. createPlanet (table planetName)) planetNames"

text \<open>The local \<open>moonDistance\<close> of \<open>createMoon\<close>.\<close>

definition createMoon_moonDistance :: "CelestialBodyData \<Rightarrow> real" where
  "createMoon_moonDistance moonData =
     orZero (semiMajorAxis moonData) * distance scaleFactors * 30"

definition createMoon :: "(BodyKey \<Rightarrow> CelestialBodyData) \<Rightarrow> Mesh" where
  "createMoon table =
     (let moonData = table Moon;
          radius' = radius moonData * planetSize scaleFactors;
          earthDistance = orZero (semiMajorAxis (table Earth)) * distance scaleFactors;
          moonDistance = createMoon_moonDistance moonData
      in \<lparr>sphereRadius = radius', userData = moonData,
          position = Vector3 (earthDistance + moonDistance) 0 0\<rparr>)"

text \<open>\<open>createRealisticOrbit\<close> keeps the points of the line it adds to the scene.\<close>

definition createRealisticOrbit :: "CelestialBodyData \<Rightarrow> Vector3 list" where
  "createRealisticOrbit data = generateOrbitPath data 256"

definition createOrbits :: "(BodyKey \<Rightarrow> CelestialBodyData) \<Rightarrow> Vector3 list list" where
  "createOrbits table = map (\<lambda>planetName. createRealisticOrbit (table planetName)) planetNames"

section \<open>The specification's formulas\<close>

text \<open>
  The steps of the specified \<open>computePosition\<close> and \<open>generateOrbitPath\<close>, written
  from the specification's words; they are compared with the functions of
  the source below. An absent element counts as 0.
\<close>

definition spec_element :: "real option \<Rightarrow> real" where
  "spec_element v = (case v of None \<Rightarrow> 0 | Some a \<Rightarrow> a)"

definition spec_radians :: "real \<Rightarrow> real" where
  "spec_radians d = d * pi / 180"

definition spec_ONE_DAY :: real where
  "spec_ONE_DAY = 86400000"

definition spec_daysSinceEpoch :: "real \<Rightarrow> real" where
  "spec_daysSinceEpoch t = (t - J2000_EPOCH) / spec_ONE_DAY"

text \<open>One Newton-Raphson step on Kepler's equation \<open>E - e sin E = M\<close>.\<close>

definition spec_newtonStep :: "real \<Rightarrow> real \<Rightarrow> real \<Rightarrow> real" where
  "spec_newtonStep e M E = E - (E - e * sin E - M) / (1 - e * cos E)"

text \<open>
  At most \<open>cap\<close> steps; the iteration stops with the new estimate as soon as a
  step changes the estimate by less than \<open>1e-8\<close>.
\<close>

primrec spec_solveKepler :: "nat \<Rightarrow> real \<Rightarrow> real \<Rightarrow> real \<Rightarrow> real" where
  "spec_solveKepler 0 e M E = E"
| "spec_solveKepler (Suc cap) e M E =
     (let E' = spec_newtonStep e M E
      in if \<bar>E' - E\<bar> < 1 / 10 ^ 8 then E' else spec_solveKepler cap e M E')"

text \<open>Steps 9 and 10: the rotation into the ecliptic frame, then scene space.\<close>

definition spec_orient :: "real \<Rightarrow> real \<Rightarrow> real \<Rightarrow> real \<Rightarrow> Vector3" where
  "spec_orient r u incl Omega =
     (let ex = r * (cos Omega * cos u - sin Omega * sin u * cos incl);
          ey = r * (sin Omega * cos u + cos Omega * sin u * cos incl);
          ez = r * (sin u * sin incl)
      in Vector3 ex ez ey)"

definition spec_displayAxis :: "CelestialBodyData \<Rightarrow> real" where
  "spec_displayAxis elements = spec_element (semiMajorAxis elements) * distance scaleFactors"

definition spec_meanAnomaly :: "CelestialBodyData \<Rightarrow> real \<Rightarrow> real" where
  "spec_meanAnomaly elements t =
     spec_radians (spec_element (meanLongitude elements))
       + (2 * pi / orbitalPeriod elements) * spec_daysSinceEpoch t
       - spec_radians (spec_element (longitudePerihelion elements))"

definition spec_trueAnomaly :: "real \<Rightarrow> real \<Rightarrow> real" where
  "spec_trueAnomaly e E =
     2 * atan2 (sqrt (1 + e) * sin (E / 2)) (sqrt (1 - e) * cos (E / 2))"

definition spec_argument :: "CelestialBodyData \<Rightarrow> real \<Rightarrow> real" where
  "spec_argument elements nu =
     nu + (spec_radians (spec_element (longitudePerihelion elements))
           - spec_radians (spec_element (longitudeNode elements)))"

definition spec_computePosition :: "CelestialBodyData \<Rightarrow> real \<Rightarrow> Vector3" where
  "spec_computePosition elements t =
     (let e = eccentricity elements;
          M = spec_meanAnomaly elements t;
          E = spec_solveKepler 10 e M M;
          nu = spec_trueAnomaly e E;
          r = spec_displayAxis elements * (1 - e * cos E)
      in spec_orient r (spec_argument elements nu)
           (spec_radians (spec_element (inclination elements)))
           (spec_radians (spec_element (longitudeNode elements))))"

definition spec_pathPoint :: "CelestialBodyData \<Rightarrow> nat \<Rightarrow> nat \<Rightarrow> Vector3" where
  "spec_pathPoint elements N i =
     (let e = eccentricity elements;
          nu = (real i / real N) * (2 * pi);
          r = spec_displayAxis elements * (1 - e\<^sup>2) / (1 + e * cos nu)
      in spec_orient r (spec_argument elements nu)
           (spec_radians (spec_element (inclination elements)))
           (spec_radians (spec_element (longitudeNode elements))))"

text \<open>
  The specified satellite position: the same Kepler solve on the satellite's
  elements, the radius on the display axis times the cosmetic multiplier, the
  offset in the orbital plane tilted by the inclination, added to the position
  of the primary.
\<close>

definition spec_satellitePosition ::
  "CelestialBodyData \<Rightarrow> real \<Rightarrow> Vector3 \<Rightarrow> real \<Rightarrow> Vector3" where
  "spec_satellitePosition elements displayMultiplier primaryPosition t =
     (let e = eccentricity elements;
          M = spec_meanAnomaly elements t;
          E = spec_solveKepler 10 e M M;
          nu = spec_trueAnomaly e E;
          r = spec_displayAxis elements * displayMultiplier * (1 - e * cos E);
          incl = spec_radians (spec_element (inclination elements))
      in Vector3 (vx primaryPosition + r * cos nu)
                 (vy primaryPosition + r * sin nu * sin incl)
                 (vz primaryPosition + r * sin nu * cos incl))"

text \<open>
  The round trip of the specification. A path sample \<open>i\<close> of \<open>N\<close> has the true
  anomaly \<open>(i / N) 2\<pi>\<close>. Inverting the half-angle formula gives its eccentric
  anomaly, Kepler's equation its mean anomaly, and the mean-anomaly relation
  the instant at which the body is there.
\<close>

definition spec_sampleAnomaly :: "nat \<Rightarrow> nat \<Rightarrow> real" where
  "spec_sampleAnomaly N i = (real i / real N) * (2 * pi)"

definition spec_eccentricAnomalyOf :: "real \<Rightarrow> real \<Rightarrow> real" where
  "spec_eccentricAnomalyOf e nu =
     2 * atan2 (sqrt (1 - e) * sin (nu / 2)) (sqrt (1 + e) * cos (nu / 2))"

definition spec_meanAnomalyOf :: "real \<Rightarrow> real \<Rightarrow> real" where
  "spec_meanAnomalyOf e nu =
     spec_eccentricAnomalyOf e nu - e * sin (spec_eccentricAnomalyOf e nu)"

definition spec_instantOf :: "CelestialBodyData \<Rightarrow> real \<Rightarrow> real" where
  "spec_instantOf elements nu =
     J2000_EPOCH + spec_ONE_DAY *
       ((spec_meanAnomalyOf (eccentricity elements) nu
          - spec_radians (spec_element (meanLongitude elements))
          + spec_radians (spec_element (longitudePerihelion elements)))
        / (2 * pi / orbitalPeriod elements))"

text \<open>
  The distance between what the Kepler loop returns at that instant and the
  eccentric anomaly of the sample.
\<close>

definition keplerSolveError :: "real \<Rightarrow> real \<Rightarrow> real" where
  "keplerSolveError e nu =
     \<bar>keplerLoop 0 e (spec_meanAnomalyOf e nu) (spec_meanAnomalyOf e nu)
        - spec_eccentricAnomalyOf e nu\<bar>"

text \<open>
  The orientation transform on the coordinates \<open>X = r cos \<nu>\<close>, \<open>Y = r sin \<nu>\<close>
  of the orbital plane, \<open>w\<close> the argument of perihelion.
\<close>

definition spec_orientPerifocal :: "real \<Rightarrow> real \<Rightarrow> real \<Rightarrow> real \<Rightarrow> real \<Rightarrow> Vector3" where
  "spec_orientPerifocal X Y w incl Omega =
     (let P = X * cos w - Y * sin w;
          Q = Y * cos w + X * sin w
      in Vector3 (cos Omega * P - sin Omega * cos incl * Q)
                 (sin incl * Q)
                 (sin Omega * P + cos Omega * cos incl * Q))"

text \<open>The position computed at the instant of sample \<open>i\<close> of \<open>N\<close>.\<close>

definition roundTripPosition :: "CelestialBodyData \<Rightarrow> nat \<Rightarrow> nat \<Rightarrow> Vector3" where
  "roundTripPosition elements N i =
     calculatePlanetPosition elements (spec_instantOf elements (spec_sampleAnomaly N i))"

definition validElements :: "CelestialBodyData \<Rightarrow> bool" where
  "validElements elements =
     (0 \<le> eccentricity elements \<and> eccentricity elements < 1 \<and> 0 < orbitalPeriod elements)"

section \<open>Example states and bodies\<close>

text \<open>A clock started at a wall time \<open>t0\<close>, switched to animation at once and paused one second later.\<close>

definition t0 :: real where
  "t0 = 1700000000000"

definition runningClock :: TimeSystem where
  "runningClock = toggleTimeMode (initTimeSystem t0) t0"

definition pausedClock :: TimeSystem where
  "pausedClock = togglePause runningClock (t0 + 1000)"

text \<open>Resumed four seconds after the pause, and paused again two seconds after that.\<close>

definition resumedClock :: TimeSystem where
  "resumedClock = togglePause pausedClock (t0 + 5000)"

definition repausedClock :: TimeSystem where
  "repausedClock = togglePause resumedClock (t0 + 7000)"

text \<open>An entry with an eccentricity of 1.5 and a period of 0, all angles 0.\<close>

definition malformedBody :: CelestialBodyData where
  "malformedBody =
     \<lparr>radius = 1, color = 0, semiMajorAxis = Some 1, eccentricity = 1.5,
      inclination = Some 0, meanLongitude = Some 0, longitudePerihelion = Some 0,
      longitudeNode = Some 0, orbitalPeriod = 0, rotationPeriod = 1,
      bodyDistance = None, scaleFactor = None, axialTilt = None\<rparr>"

text \<open>A circular orbit of 1 AU in the reference plane, the specification's scenario.\<close>

definition circularBody :: CelestialBodyData where
  "circularBody =
     \<lparr>radius = 1, color = 0, semiMajorAxis = Some 1, eccentricity = 0,
      inclination = Some 0, meanLongitude = Some 0, longitudePerihelion = Some 0,
      longitudeNode = Some 0, orbitalPeriod = 365.25, rotationPeriod = 1,
      bodyDistance = None, scaleFactor = None, axialTilt = None\<rparr>"

text \<open>An entry with a negative eccentricity, at which the real-number model and the program agree.\<close>

definition inwardBody :: CelestialBodyData where
  "inwardBody =
     \<lparr>radius = 1, color = 0, semiMajorAxis = Some 1, eccentricity = - 0.5,
      inclination = Some 0, meanLongitude = Some 0, longitudePerihelion = Some 0,
      longitudeNode = Some 0, orbitalPeriod = 365.25, rotationPeriod = 1,
      bodyDistance = None, scaleFactor = None, axialTilt = None\<rparr>"

section \<open>Properties of the time system\<close>

lemma getSimulationTime_paused:
  "acceleratedPaused s \<Longrightarrow>
     getSimulationTime s now =
       simulationStartTime s + pausedTime s * animationTimeScale s / 1000"
  by (simp add: getSimulationTime_def acceleratedPaused_def)

lemma getSimulationTime_running:
  "acceleratedRunning s \<Longrightarrow>
     getSimulationTime s now =
       simulationStartTime s + (now - simulationStartTime s) * animationTimeScale s / 1000"
  by (simp add: getSimulationTime_def acceleratedRunning_def Let_def)

lemmas clock_defs = runningClock_def pausedClock_def resumedClock_def repausedClock_def
  initTimeSystem_def toggleTimeMode_def togglePause_def t0_def

lemma pausedClock_eq:
  "pausedClock = \<lparr>timeMode = Animation, simulationStartTime = t0,
     animationTimeScale = 604800000, isPaused = True, pausedTime = 1000,
     currentTimeScaleOption = Week\<rparr>"
  by (simp add: runningClock_def pausedClock_def initTimeSystem_def toggleTimeMode_def
      togglePause_def)

text \<open>
  What resuming does to the simulated instant: it moves forward by the wall
  time that passed between the pause and the resumption.
\<close>

lemma resume_instant:
  assumes "acceleratedPaused s"
  shows "getSimulationTime (togglePause s now) now
           = getSimulationTime s now + (now - (simulationStartTime s + pausedTime s))"
  using assms
  by (simp add: togglePause_def acceleratedPaused_def getSimulationTime_def Let_def
      algebra_simps)

text \<open>
  What a change of rate does to a running clock: the anchor becomes the wall
  clock, the offset 0, and the simulated instant the wall clock itself.
\<close>

lemma rate_change_running:
  assumes "acceleratedRunning s"
  shows "simulationStartTime (setTimeScaleOption s option now) = now
       \<and> pausedTime (setTimeScaleOption s option now) = 0
       \<and> acceleratedRunning (setTimeScaleOption s option now)
       \<and> getSimulationTime (setTimeScaleOption s option now) now = now"
  using assms
  by (simp add: setTimeScaleOption_def acceleratedRunning_def getSimulationTime_def Let_def)

text \<open>
  Claim C1. Resuming from a pause is meant to continue from the frozen
  simulated instant, and pausing again after a real delay \<open>\<Delta>\<close> to freeze the
  clock \<open>\<Delta>\<close> times the acceleration factor later. On the clock that is
  started at \<open>t0\<close>, paused at \<open>t0 + 1000\<close>, resumed at \<open>t0 + 5000\<close> and paused
  again at \<open>t0 + 7000\<close>, the instant read right after resuming is 4000 ms
  later than the frozen one, and the second frozen instant is 1209604000 ms
  after the first, where \<open>\<Delta>\<close> times the factor is 1209600000.
\<close>

theorem resume_jump_example:
  "acceleratedPaused pausedClock
   \<and> resumedClock = togglePause pausedClock (t0 + 5000)
   \<and> acceleratedRunning resumedClock
   \<and> getSimulationTime pausedClock (t0 + 5000) = t0 + 604800000
   \<and> getSimulationTime resumedClock (t0 + 5000) = t0 + 604804000
   \<and> repausedClock = togglePause resumedClock (t0 + 5000 + 2000)
   \<and> acceleratedPaused repausedClock
   \<and> 2000 * accelerationFactor resumedClock = 1209600000
   \<and> getSimulationTime repausedClock (t0 + 7000) - getSimulationTime pausedClock (t0 + 5000)
        = 1209604000"
  by (simp add: clock_defs acceleratedPaused_def acceleratedRunning_def
      getSimulationTime_def accelerationFactor_def Let_def)

text \<open>
  Claim C2. Changing the rate of a running clock re-anchors it to the wall
  clock with a zero offset, and is meant to leave the simulated instant where
  it was. On the clock started at \<open>t0\<close> and read one second later, the
  simulated instant is \<open>t0 + 604800000\<close> before the call and \<open>t0 + 1000\<close>
  after it.
\<close>

theorem rate_change_jump_example:
  "acceleratedRunning runningClock
   \<and> getSimulationTime runningClock (t0 + 1000) = t0 + 604800000
   \<and> simulationStartTime (setTimeScaleOption runningClock Hour (t0 + 1000)) = t0 + 1000
   \<and> pausedTime (setTimeScaleOption runningClock Hour (t0 + 1000)) = 0
   \<and> getSimulationTime (setTimeScaleOption runningClock Hour (t0 + 1000)) (t0 + 1000)
        = t0 + 1000"
  by (simp add: clock_defs acceleratedRunning_def setTimeScaleOption_def
      getSimulationTime_def Let_def)

text \<open>
  Claim C5. In the state accelerated and paused, the simulated instant is
  the anchor plus the paused offset times the acceleration factor, whatever
  the wall clock reads: two readings with no transition in between agree.
\<close>

theorem paused_instant_frozen:
  assumes "acceleratedPaused s"
  shows "getSimulationTime s now =
           simulationStartTime s + pausedTime s * accelerationFactor s
         \<and> (\<forall>now'. getSimulationTime s now' = getSimulationTime s now)"
  using assms by (simp add: getSimulationTime_paused accelerationFactor_def)

theorem paused_instant_frozen_witness:
  "acceleratedPaused pausedClock
   \<and> getSimulationTime pausedClock (t0 + 3000) = t0 + 1000 * 604800
   \<and> getSimulationTime pausedClock (t0 + 9000) = getSimulationTime pausedClock (t0 + 3000)"
proof -
  have h: "acceleratedPaused pausedClock"
    by (simp add: pausedClock_eq acceleratedPaused_def)
  note frozen = paused_instant_frozen [OF h, of "t0 + 3000"]
  from frozen have "getSimulationTime pausedClock (t0 + 3000)
      = simulationStartTime pausedClock + pausedTime pausedClock * accelerationFactor pausedClock"
    by (rule conjunct1)
  then have val: "getSimulationTime pausedClock (t0 + 3000) = t0 + 1000 * 604800"
    by (simp add: pausedClock_eq accelerationFactor_def)
  from frozen have same:
    "getSimulationTime pausedClock (t0 + 9000) = getSimulationTime pausedClock (t0 + 3000)"
    by blast
  from h val same show ?thesis by blast
qed

text \<open>
  Claim C10. Changing the rate while the clock is accelerated and paused
  leaves the mode, the pause flag, the anchor and the paused offset as they
  were. The instant read while still paused becomes the anchor plus the offset
  times the new factor: its distance from the anchor is rescaled in the
  proportion of the new factor to the old one, and the instant is not the
  one read before whenever the offset is not 0 and the rate really changes.
\<close>

theorem rate_change_while_paused:
  assumes "acceleratedPaused s"
  shows "timeMode (setTimeScaleOption s option now) = timeMode s
       \<and> isPaused (setTimeScaleOption s option now) = isPaused s
       \<and> simulationStartTime (setTimeScaleOption s option now) = simulationStartTime s
       \<and> pausedTime (setTimeScaleOption s option now) = pausedTime s
       \<and> accelerationFactor (setTimeScaleOption s option now) = timeScaleOf option / 1000
       \<and> getSimulationTime (setTimeScaleOption s option now) now'
           = simulationStartTime s + pausedTime s * (timeScaleOf option / 1000)
       \<and> (getSimulationTime (setTimeScaleOption s option now) now' - simulationStartTime s)
             * accelerationFactor s
           = (getSimulationTime s now' - simulationStartTime s)
             * accelerationFactor (setTimeScaleOption s option now)
       \<and> (pausedTime s \<noteq> 0 \<and> timeScaleOf option \<noteq> animationTimeScale s
            \<longrightarrow> getSimulationTime (setTimeScaleOption s option now) now'
                 \<noteq> getSimulationTime s now')"
  using assms
  by (simp add: setTimeScaleOption_def acceleratedPaused_def getSimulationTime_def
      accelerationFactor_def Let_def)

theorem rate_change_while_paused_witness:
  "acceleratedPaused pausedClock
   \<and> pausedTime pausedClock \<noteq> 0
   \<and> timeScaleOf Hour \<noteq> animationTimeScale pausedClock
   \<and> pausedTime (setTimeScaleOption pausedClock Hour (t0 + 2000)) = pausedTime pausedClock
   \<and> getSimulationTime (setTimeScaleOption pausedClock Hour (t0 + 2000)) (t0 + 2000)
        = t0 + 3600000
   \<and> getSimulationTime (setTimeScaleOption pausedClock Hour (t0 + 2000)) (t0 + 2000)
        \<noteq> getSimulationTime pausedClock (t0 + 2000)"
proof -
  have h: "acceleratedPaused pausedClock"
    by (simp add: pausedClock_eq acceleratedPaused_def)
  have offset: "pausedTime pausedClock \<noteq> 0"
    by (simp add: pausedClock_eq)
  have rate: "timeScaleOf Hour \<noteq> animationTimeScale pausedClock"
    by (simp add: pausedClock_eq)
  note fact = rate_change_while_paused [OF h, of Hour "t0 + 2000" "t0 + 2000"]
  from fact have kept:
    "pausedTime (setTimeScaleOption pausedClock Hour (t0 + 2000)) = pausedTime pausedClock"
    by blast
  from fact have
    "getSimulationTime (setTimeScaleOption pausedClock Hour (t0 + 2000)) (t0 + 2000)
       = simulationStartTime pausedClock + pausedTime pausedClock * (timeScaleOf Hour / 1000)"
    by blast
  then have rescaled:
    "getSimulationTime (setTimeScaleOption pausedClock Hour (t0 + 2000)) (t0 + 2000)
       = t0 + 3600000"
    by (simp add: pausedClock_eq)
  from fact offset rate have changed:
    "getSimulationTime (setTimeScaleOption pausedClock Hour (t0 + 2000)) (t0 + 2000)
       \<noteq> getSimulationTime pausedClock (t0 + 2000)"
    by blast
  from h offset rate kept rescaled changed show ?thesis by blast
qed

section \<open>Properties of the orbital mathematics\<close>

lemma orZero_eq: "orZero v = spec_element v"
  by (cases v) (simp_all add: orZero_def spec_element_def)

lemma numOrZero_eq: "numOrZero a = a"
  by (simp add: numOrZero_def)

lemma keplerLoop_unfold:
  "i < 10 \<Longrightarrow> keplerLoop i e M E =
     (if \<bar>spec_newtonStep e M E - E\<bar> < 1 / 10 ^ 8 then spec_newtonStep e M E
      else keplerLoop (Suc i) e M (spec_newtonStep e M E))"
  by (subst keplerLoop.simps) (simp add: Let_def spec_newtonStep_def)

lemma keplerLoop_exit: "\<not> i < 10 \<Longrightarrow> keplerLoop i e M E = E"
  by (subst keplerLoop.simps) simp

lemma keplerLoop_spec:
  "i + cap = 10 \<Longrightarrow> keplerLoop i e M E = spec_solveKepler cap e M E"
proof (induction cap arbitrary: i E)
  case 0
  then show ?case by (simp add: keplerLoop_exit)
next
  case (Suc cap)
  then have "i < 10" and "Suc i + cap = 10" by simp_all
  then show ?case
    using Suc.IH [of "Suc i"] by (simp add: keplerLoop_unfold Let_def)
qed

lemma circular_at_epoch: "spec_computePosition circularBody J2000_EPOCH = Vector3 10 0 0"
  by (simp add: spec_computePosition_def circularBody_def Let_def spec_meanAnomaly_def
      spec_trueAnomaly_def spec_argument_def spec_displayAxis_def spec_orient_def
      spec_radians_def spec_daysSinceEpoch_def spec_element_def spec_newtonStep_def
      scaleFactors_def atan2_def eval_nat_numeral)

text \<open>
  Claim C4. For a body with a positive orbital period and any instant,
  \<open>calculatePlanetPosition\<close> is the specified Keplerian propagation: days
  since the epoch, mean motion, mean anomaly from the angles in radians, the
  eccentric anomaly by Newton-Raphson from the seed \<open>M\<close> with the stop at a
  step below \<open>1e-8\<close> or after 10 steps, the true anomaly by the half-angle
  \<open>atan2\<close>, the radius \<open>a (1 - e cos E)\<close> on the display-scaled axis, the
  rotation into the ecliptic frame and the remap to \<open>(x, z, y)\<close>.
\<close>

theorem planet_position_follows_spec:
  assumes "0 < orbitalPeriod data"
  shows "calculatePlanetPosition data time = spec_computePosition data time"
proof -
  have solve: "keplerLoop 0 e M M = spec_solveKepler 10 e M M" for e M
    by (rule keplerLoop_spec) simp
  show ?thesis
    by (simp add: calculatePlanetPosition_def spec_computePosition_def Let_def solve
        orZero_eq numOrZero_eq spec_meanAnomaly_def spec_trueAnomaly_def spec_argument_def
        spec_displayAxis_def spec_orient_def spec_radians_def spec_daysSinceEpoch_def
        spec_ONE_DAY_def)
qed

theorem planet_position_follows_spec_witness:
  "0 < orbitalPeriod circularBody
   \<and> calculatePlanetPosition circularBody J2000_EPOCH = Vector3 10 0 0"
proof -
  have h: "0 < orbitalPeriod circularBody"
    by (simp add: circularBody_def)
  from planet_position_follows_spec [OF h, of J2000_EPOCH]
  have "calculatePlanetPosition circularBody J2000_EPOCH = Vector3 10 0 0"
    by (simp only: circular_at_epoch)
  with h show ?thesis by blast
qed

lemma orbitPathLoop_eq:
  "i \<le> Suc N \<Longrightarrow>
     orbitPathLoop data N i points = points @ map (orbitPathPoint data N) [i..<Suc N]"
proof (induction data N i points rule: orbitPathLoop.induct)
  case (1 data segments i points)
  show ?case
  proof (cases "i \<le> segments")
    case True
    then have "[i..<Suc segments] = i # [Suc i..<Suc segments]"
      by (simp add: upt_conv_Cons)
    with True "1.IH" show ?thesis
      by (subst orbitPathLoop.simps) simp
  next
    case False
    with "1.prems" have "i = Suc segments" by simp
    then show ?thesis
      by (subst orbitPathLoop.simps) simp
  qed
qed

lemma generateOrbitPath_eq:
  "generateOrbitPath data N = map (orbitPathPoint data N) [0..<Suc N]"
  by (simp add: generateOrbitPath_def orbitPathLoop_eq)

lemma orbitPathPoint_spec: "orbitPathPoint data N i = spec_pathPoint data N i"
proof -
  have nu: "real i / real N * 2 * pi = real i / real N * (2 * pi)"
    by simp
  show ?thesis
    unfolding orbitPathPoint_def spec_pathPoint_def Let_def orZero_eq numOrZero_eq
      spec_argument_def spec_displayAxis_def spec_orient_def spec_radians_def
      power2_eq_square nu
    by (rule refl)
qed

lemma spec_pathPoint_closed:
  assumes "1 \<le> N"
  shows "spec_pathPoint data N N = spec_pathPoint data N 0"
proof -
  from assms have one: "real N / real N = 1" by simp
  have c: "cos (2 * pi + x) = cos x" and s: "sin (2 * pi + x) = sin x" for x :: real
    by (simp_all add: cos_add sin_add)
  show ?thesis
    by (simp add: spec_pathPoint_def Let_def spec_argument_def spec_orient_def one c s)
qed

lemma circularBody_valid: "validElements circularBody"
  by (simp add: validElements_def circularBody_def)

lemma circular_half_way: "spec_pathPoint circularBody 4 2 = Vector3 (- 10) 0 0"
  by (simp add: spec_pathPoint_def circularBody_def Let_def spec_argument_def
      spec_displayAxis_def spec_orient_def spec_radians_def spec_element_def scaleFactors_def)

text \<open>
  Claim C7. For valid elements and \<open>N \<ge> 1\<close> segments, \<open>generateOrbitPath\<close>
  returns a list of \<open>N + 1\<close> points; point \<open>i\<close> is the specified one, from the
  true anomaly \<open>(i / N) 2\<pi>\<close>, the radius \<open>a (1 - e\<^sup>2) / (1 + e cos \<nu>)\<close> and
  the orientation and remap of \<open>computePosition\<close>; the last point is the
  first one (in exact arithmetic they are equal).
\<close>

theorem orbit_path_points:
  assumes "validElements data" and "1 \<le> N"
  shows "length (generateOrbitPath data N) = N + 1
       \<and> (\<forall>i\<le>N. generateOrbitPath data N ! i = spec_pathPoint data N i)
       \<and> last (generateOrbitPath data N) = hd (generateOrbitPath data N)"
proof -
  have len: "length (generateOrbitPath data N) = N + 1"
    by (simp add: generateOrbitPath_eq)
  have pts: "generateOrbitPath data N ! i = spec_pathPoint data N i" if "i \<le> N" for i
  proof -
    from that have "i < length [0..<Suc N]" by simp
    then have "generateOrbitPath data N ! i = orbitPathPoint data N ([0..<Suc N] ! i)"
      unfolding generateOrbitPath_eq by (rule nth_map)
    also from that have "[0..<Suc N] ! i = i"
      using nth_upt [of 0 i "Suc N"] by simp
    finally show ?thesis by (simp add: orbitPathPoint_spec)
  qed
  have ne: "generateOrbitPath data N \<noteq> []"
    using len by auto
  have "last (generateOrbitPath data N) = generateOrbitPath data N ! N"
    using ne len by (simp add: last_conv_nth)
  also have "\<dots> = spec_pathPoint data N 0"
    using pts [of N] spec_pathPoint_closed [OF assms(2)] by simp
  also have "\<dots> = generateOrbitPath data N ! 0"
    using pts [of 0] by simp
  also have "\<dots> = hd (generateOrbitPath data N)"
    using ne by (simp add: hd_conv_nth)
  finally show ?thesis using len pts by blast
qed

theorem orbit_path_points_witness:
  "validElements circularBody \<and> (1::nat) \<le> 4 \<and> (2::nat) \<le> 4
   \<and> length (generateOrbitPath circularBody 4) = 5
   \<and> generateOrbitPath circularBody 4 ! 2 = Vector3 (- 10) 0 0
   \<and> last (generateOrbitPath circularBody 4) = hd (generateOrbitPath circularBody 4)"
proof -
  have n: "(1::nat) \<le> 4" and i: "(2::nat) \<le> 4"
    by simp_all
  note path = orbit_path_points [OF circularBody_valid n]
  from path have len: "length (generateOrbitPath circularBody 4) = 5"
    by simp
  from path i have "generateOrbitPath circularBody 4 ! 2 = spec_pathPoint circularBody 4 2"
    by blast
  then have pt: "generateOrbitPath circularBody 4 ! 2 = Vector3 (- 10) 0 0"
    by (simp only: circular_half_way)
  from path have closed:
    "last (generateOrbitPath circularBody 4) = hd (generateOrbitPath circularBody 4)"
    by blast
  from circularBody_valid n i len pt closed show ?thesis by blast
qed

text \<open>
  Claim C8. For a rotation period other than 0, \<open>calculateRotationAngle\<close> is
  the days since the epoch over the absolute period, times \<open>2\<pi>\<close>, negated for
  a negative period; for Venus (period -243.0226 days), 243.0226 days after
  the epoch, it is \<open>-2\<pi>\<close>.
\<close>

theorem rotation_angle_formula:
  assumes "rotationPeriod data \<noteq> 0"
  shows "calculateRotationAngle data time =
           (if rotationPeriod data < 0
            then - ((spec_daysSinceEpoch time / \<bar>rotationPeriod data\<bar>) * (2 * pi))
            else (spec_daysSinceEpoch time / \<bar>rotationPeriod data\<bar>) * (2 * pi))
       \<and> calculateRotationAngle (celestialData Venus) (J2000_EPOCH + 243.0226 * spec_ONE_DAY)
           = - (2 * pi)"
proof -
  have day: "(1000 * 60 * 60 * 24 :: real) = spec_ONE_DAY"
    by (simp add: spec_ONE_DAY_def)
  have turn: "a * 2 * pi = a * (2 * pi)" for a :: real
    by simp
  have angle: "calculateRotationAngle d t =
      (if rotationPeriod d > 0
       then (spec_daysSinceEpoch t / \<bar>rotationPeriod d\<bar>) * (2 * pi)
       else - ((spec_daysSinceEpoch t / \<bar>rotationPeriod d\<bar>) * (2 * pi)))" for d t
    unfolding calculateRotationAngle_def Let_def spec_daysSinceEpoch_def day turn
    by (rule refl)
  from assms have general: "calculateRotationAngle data time =
      (if rotationPeriod data < 0
       then - ((spec_daysSinceEpoch time / \<bar>rotationPeriod data\<bar>) * (2 * pi))
       else (spec_daysSinceEpoch time / \<bar>rotationPeriod data\<bar>) * (2 * pi))"
    unfolding angle by (cases "rotationPeriod data > 0") simp_all
  have "spec_daysSinceEpoch (J2000_EPOCH + 243.0226 * spec_ONE_DAY) = 243.0226"
    by (simp add: spec_daysSinceEpoch_def spec_ONE_DAY_def)
  then have venus:
    "calculateRotationAngle (celestialData Venus) (J2000_EPOCH + 243.0226 * spec_ONE_DAY)
       = - (2 * pi)"
    unfolding angle by simp
  from general venus show ?thesis by blast
qed

theorem rotation_angle_formula_witness:
  "rotationPeriod (celestialData Earth) \<noteq> 0
   \<and> calculateRotationAngle (celestialData Earth) (J2000_EPOCH + spec_ONE_DAY) = 2 * pi"
proof -
  have h: "rotationPeriod (celestialData Earth) \<noteq> 0"
    by simp
  have days: "spec_daysSinceEpoch (J2000_EPOCH + spec_ONE_DAY) = 1"
    by (simp add: spec_daysSinceEpoch_def spec_ONE_DAY_def)
  from rotation_angle_formula [OF h, of "J2000_EPOCH + spec_ONE_DAY"]
  have "calculateRotationAngle (celestialData Earth) (J2000_EPOCH + spec_ONE_DAY) = 2 * pi"
    by (simp add: days)
  with h show ?thesis by blast
qed

text \<open>
  Where the two distances end up: \<open>calculateMoonPosition\<close> puts the Moon at
  its \<open>moonDistance\<close> times \<open>1 - e cos E\<close> from the position of the Earth,
  \<open>createMoon\<close> at its \<open>moonDistance\<close> beside the initial position of the Earth.
\<close>

lemma moon_offset_norm:
  fixes r c s p q :: real
  assumes "c\<^sup>2 + s\<^sup>2 = 1" and "p\<^sup>2 + q\<^sup>2 = 1"
  shows "(r * c)\<^sup>2 + (r * s * q)\<^sup>2 + (r * s * p)\<^sup>2 = r\<^sup>2"
proof -
  have "(r * c)\<^sup>2 + (r * s * q)\<^sup>2 + (r * s * p)\<^sup>2 = r\<^sup>2 * (c\<^sup>2 + s\<^sup>2 * (p\<^sup>2 + q\<^sup>2))"
    by (simp add: power2_eq_square algebra_simps)
  also have "\<dots> = r\<^sup>2"
    by (simp add: assms)
  finally show ?thesis .
qed

lemma moon_distance_from_earth:
  "\<exists>E. (vx (calculateMoonPosition moonData earthPosition time) - vx earthPosition)\<^sup>2
        + (vy (calculateMoonPosition moonData earthPosition time) - vy earthPosition)\<^sup>2
        + (vz (calculateMoonPosition moonData earthPosition time) - vz earthPosition)\<^sup>2
      = (calculateMoonPosition_moonDistance moonData * (1 - eccentricity moonData * cos E))\<^sup>2"
proof -
  define M where "M = orZero (meanLongitude moonData) * pi / 180
      + 2 * pi / orbitalPeriod moonData * ((time - J2000_EPOCH) / (1000 * 60 * 60 * 24))
      - orZero (longitudePerihelion moonData) * pi / 180"
  define E where "E = keplerLoop 0 (eccentricity moonData) M M"
  define nu where "nu = 2 * atan2 (sqrt (1 + eccentricity moonData) * sin (E / 2))
      (sqrt (1 - eccentricity moonData) * cos (E / 2))"
  define r where "r = calculateMoonPosition_moonDistance moonData * (1 - eccentricity moonData * cos E)"
  define incl where "incl = orZero (inclination moonData) * pi / 180"
  have pos: "calculateMoonPosition moonData earthPosition time =
      Vector3 (vx earthPosition + r * cos nu) (vy earthPosition + r * sin nu * sin incl)
        (vz earthPosition + r * sin nu * cos incl)"
    by (simp add: calculateMoonPosition_def Let_def numOrZero_eq M_def E_def nu_def r_def incl_def)
  have "(r * cos nu)\<^sup>2 + (r * sin nu * sin incl)\<^sup>2 + (r * sin nu * cos incl)\<^sup>2 = r\<^sup>2"
    by (rule moon_offset_norm) (simp_all add: add.commute)
  then have "(vx (calculateMoonPosition moonData earthPosition time) - vx earthPosition)\<^sup>2
        + (vy (calculateMoonPosition moonData earthPosition time) - vy earthPosition)\<^sup>2
        + (vz (calculateMoonPosition moonData earthPosition time) - vz earthPosition)\<^sup>2
      = r\<^sup>2"
    by (simp add: pos)
  then show ?thesis
    unfolding r_def by blast
qed

lemma createMoon_offset:
  "position (createMoon table) =
     Vector3 (vx (position (createPlanet (table Earth))) + createMoon_moonDistance (table Moon)) 0 0"
  by (simp add: createMoon_def createPlanet_def Let_def)

text \<open>
  Claim C9. The two places that compute the display distance of the Moon
  disagree: \<open>calculateMoonPosition\<close> multiplies the scaled semi-major axis by
  45, \<open>createMoon\<close> by 30, so for a semi-major axis other than 0 the two
  distances differ (1.1565 against 0.771 for the Moon of the table). The
  first is the scale of the Moon's distance from the Earth in every frame, the
  second its initial offset from the Earth.
\<close>

theorem moon_distance_factors:
  "calculateMoonPosition_moonDistance moonData
       = 45 * (orZero (semiMajorAxis moonData) * distance scaleFactors)
   \<and> createMoon_moonDistance moonData
       = 30 * (orZero (semiMajorAxis moonData) * distance scaleFactors)
   \<and> (orZero (semiMajorAxis moonData) \<noteq> 0 \<longrightarrow>
        calculateMoonPosition_moonDistance moonData \<noteq> createMoon_moonDistance moonData)
   \<and> calculateMoonPosition_moonDistance (celestialData Moon) = 1.1565
   \<and> createMoon_moonDistance (celestialData Moon) = 0.771
   \<and> (\<exists>E. (vx (calculateMoonPosition moonData earthPosition time) - vx earthPosition)\<^sup>2
          + (vy (calculateMoonPosition moonData earthPosition time) - vy earthPosition)\<^sup>2
          + (vz (calculateMoonPosition moonData earthPosition time) - vz earthPosition)\<^sup>2
        = (calculateMoonPosition_moonDistance moonData
             * (1 - eccentricity moonData * cos E))\<^sup>2)
   \<and> position (createMoon table) =
        Vector3 (vx (position (createPlanet (table Earth)))
                 + createMoon_moonDistance (table Moon)) 0 0"
proof -
  have factors:
    "calculateMoonPosition_moonDistance moonData
       = 45 * (orZero (semiMajorAxis moonData) * distance scaleFactors)"
    "createMoon_moonDistance moonData
       = 30 * (orZero (semiMajorAxis moonData) * distance scaleFactors)"
    "orZero (semiMajorAxis moonData) \<noteq> 0 \<longrightarrow>
        calculateMoonPosition_moonDistance moonData \<noteq> createMoon_moonDistance moonData"
    by (simp_all add: calculateMoonPosition_moonDistance_def createMoon_moonDistance_def
        scaleFactors_def)
  have moon:
    "calculateMoonPosition_moonDistance (celestialData Moon) = 1.1565"
    "createMoon_moonDistance (celestialData Moon) = 0.771"
    by (simp_all add: calculateMoonPosition_moonDistance_def createMoon_moonDistance_def
        scaleFactors_def orZero_def)
  from factors moon moon_distance_from_earth [of moonData earthPosition time]
    createMoon_offset [of table]
  show ?thesis by (intro conjI)
qed

theorem moon_distance_factors_witness:
  "orZero (semiMajorAxis (celestialData Moon)) \<noteq> 0
   \<and> calculateMoonPosition_moonDistance (celestialData Moon)
        \<noteq> createMoon_moonDistance (celestialData Moon)"
proof -
  have h: "orZero (semiMajorAxis (celestialData Moon)) \<noteq> 0"
    by (simp add: orZero_def)
  from moon_distance_factors [of "celestialData Moon"] h
  have "calculateMoonPosition_moonDistance (celestialData Moon)
          \<noteq> createMoon_moonDistance (celestialData Moon)"
    by blast
  with h show ?thesis by blast
qed

section \<open>Loading the elements\<close>

lemma table_valid: "k \<noteq> Sun \<Longrightarrow> validElements (celestialData k)"
  by (cases k) (simp_all add: validElements_def)

lemma createPlanets_userData: "map userData (createPlanets table) = map table planetNames"
  by (simp add: createPlanets_def createPlanet_def Let_def comp_def)

text \<open>
  Each routine of the math engine is its formula on the stored elements, for
  every entry, valid or not.
\<close>

lemma keplerLoop_solve: "keplerLoop 0 e M M = spec_solveKepler 10 e M M"
  by (rule keplerLoop_spec) simp

lemma calculatePlanetPosition_formula:
  "calculatePlanetPosition data time = spec_computePosition data time"
  by (simp add: calculatePlanetPosition_def spec_computePosition_def Let_def keplerLoop_solve
      orZero_eq numOrZero_eq spec_meanAnomaly_def spec_trueAnomaly_def spec_argument_def
      spec_displayAxis_def spec_orient_def spec_radians_def spec_daysSinceEpoch_def
      spec_ONE_DAY_def)

lemma calculateMoonPosition_formula:
  "calculateMoonPosition moonData earthPosition time =
     spec_satellitePosition moonData 45 earthPosition time"
  by (simp add: calculateMoonPosition_def spec_satellitePosition_def Let_def keplerLoop_solve
      calculateMoonPosition_moonDistance_def
      orZero_eq numOrZero_eq spec_meanAnomaly_def spec_trueAnomaly_def
      spec_displayAxis_def spec_radians_def spec_daysSinceEpoch_def spec_ONE_DAY_def)

lemma generateOrbitPath_formula:
  "generateOrbitPath data N = map (spec_pathPoint data N) [0..<Suc N]"
  unfolding generateOrbitPath_eq by (rule map_cong) (simp_all add: orbitPathPoint_spec)

lemma createOrbits_formula:
  "createOrbits table = map (\<lambda>k. map (spec_pathPoint (table k) 256) [0..<257]) planetNames"
  by (simp add: createOrbits_def createRealisticOrbit_def generateOrbitPath_formula
      del: upt_Suc)

text \<open>
  Claim C3, as stated: malformed elements are rejected when they are loaded.
  The entry with eccentricity 1.5 and period 0 is not valid, yet
  \<open>createPlanets\<close> keeps it as it is and \<open>createRealisticOrbit\<close> returns its
  257 path points, the first at radius \<open>10 (1 - 1.5\<^sup>2) / (1 + 1.5) = -5\<close>: nothing
  is rejected.
\<close>

theorem malformed_elements_accepted:
  "\<not> validElements malformedBody
   \<and> userData (createPlanet malformedBody) = malformedBody
   \<and> length (createRealisticOrbit malformedBody) = 257
   \<and> hd (createRealisticOrbit malformedBody) = Vector3 (- 5) 0 0"
proof -
  have "hd (createRealisticOrbit malformedBody) = orbitPathPoint malformedBody 256 0"
    by (simp add: createRealisticOrbit_def generateOrbitPath_eq upt_conv_Cons del: upt_Suc)
  also have "\<dots> = Vector3 (- 5) 0 0"
    by (simp add: orbitPathPoint_def malformedBody_def Let_def orZero_def numOrZero_def
        scaleFactors_def)
  finally show ?thesis
    by (simp add: validElements_def malformedBody_def createPlanet_def Let_def
        createRealisticOrbit_def generateOrbitPath_eq)
qed

text \<open>
  Claim C3, amended. No orbital element is validated when it is loaded: an
  eccentricity outside \<open>[0, 1)\<close> or a zero period is accepted without any
  failure (every entry of the built-in table other than the Sun does have an
  eccentricity in \<open>[0, 1)\<close> and a positive period), and no value is clamped
  by the loader or by the math engine: \<open>createPlanets\<close> and \<open>createMoon\<close>
  keep the entry as it is, and \<open>generateOrbitPath\<close> (so \<open>createOrbits\<close>),
  \<open>calculatePlanetPosition\<close> and \<open>calculateMoonPosition\<close> are, at every point
  and instant, the formulas evaluated at the stored eccentricity.
\<close>

theorem elements_loaded_as_given:
  "(\<forall>k. k \<noteq> Sun \<longrightarrow> validElements (celestialData k))
   \<and> userData (createPlanet data) = data
   \<and> map userData (createPlanets table) = map table planetNames
   \<and> userData (createMoon table) = table Moon
   \<and> createOrbits table
       = map (\<lambda>k. map (spec_pathPoint (table k) 256) [0..<257]) planetNames
   \<and> generateOrbitPath data N = map (spec_pathPoint data N) [0..<Suc N]
   \<and> calculatePlanetPosition data time = spec_computePosition data time
   \<and> calculateMoonPosition data earthPosition time
       = spec_satellitePosition data 45 earthPosition time"
proof -
  have table: "\<forall>k. k \<noteq> Sun \<longrightarrow> validElements (celestialData k)"
    using table_valid by blast
  have kept: "userData (createPlanet data) = data"
    by (simp add: createPlanet_def Let_def)
  have moon: "userData (createMoon table) = table Moon"
    by (simp add: createMoon_def Let_def)
  from table kept createPlanets_userData [of table] moon createOrbits_formula [of table]
    generateOrbitPath_formula [of data N] calculatePlanetPosition_formula [of data time]
    calculateMoonPosition_formula [of data earthPosition time]
  show ?thesis by (intro conjI)
qed

lemma malformed_path_point: "spec_pathPoint malformedBody 4 2 = Vector3 (- 25) 0 0"
  by (simp add: spec_pathPoint_def malformedBody_def Let_def spec_argument_def
      spec_displayAxis_def spec_orient_def spec_radians_def spec_element_def scaleFactors_def
      power2_eq_square)

lemma inward_position: "spec_computePosition inwardBody J2000_EPOCH = Vector3 15 0 0"
  by (simp add: spec_computePosition_def inwardBody_def Let_def spec_meanAnomaly_def
      spec_trueAnomaly_def spec_argument_def spec_displayAxis_def spec_orient_def
      spec_radians_def spec_daysSinceEpoch_def spec_element_def spec_newtonStep_def
      scaleFactors_def atan2_def eval_nat_numeral)

lemma inward_satellite:
  "spec_satellitePosition inwardBody 45 (Vector3 1 2 3) J2000_EPOCH = Vector3 676 2 3"
  by (simp add: spec_satellitePosition_def inwardBody_def Let_def spec_meanAnomaly_def
      spec_trueAnomaly_def spec_displayAxis_def
      spec_radians_def spec_daysSinceEpoch_def spec_element_def spec_newtonStep_def
      scaleFactors_def atan2_def eval_nat_numeral)

theorem elements_loaded_as_given_witness:
  "Pluto \<noteq> Sun \<and> validElements (celestialData Pluto)
   \<and> \<not> validElements malformedBody \<and> \<not> validElements inwardBody
   \<and> generateOrbitPath malformedBody 4 ! 2 = Vector3 (- 25) 0 0
   \<and> calculatePlanetPosition inwardBody J2000_EPOCH = Vector3 15 0 0
   \<and> calculateMoonPosition inwardBody (Vector3 1 2 3) J2000_EPOCH = Vector3 676 2 3"
proof -
  have k: "Pluto \<noteq> Sun" by simp
  from elements_loaded_as_given [of malformedBody celestialData 4] k
  have valid: "validElements (celestialData Pluto)"
    by blast
  have bad: "\<not> validElements malformedBody" "\<not> validElements inwardBody"
    by (simp_all add: validElements_def malformedBody_def inwardBody_def)
  from elements_loaded_as_given [of malformedBody celestialData 4]
  have "generateOrbitPath malformedBody 4 = map (spec_pathPoint malformedBody 4) [0..<Suc 4]"
    by blast
  then have "generateOrbitPath malformedBody 4 ! 2
      = map (spec_pathPoint malformedBody 4) [0..<Suc 4] ! 2"
    by (rule arg_cong)
  also have "\<dots> = spec_pathPoint malformedBody 4 ([0..<Suc 4] ! 2)"
    by (rule nth_map) simp
  also have "[0..<Suc 4] ! 2 = 2"
    using nth_upt [of 0 2 "Suc 4"] by simp
  finally have path: "generateOrbitPath malformedBody 4 ! 2 = Vector3 (- 25) 0 0"
    by (simp only: malformed_path_point)
  from elements_loaded_as_given [of inwardBody celestialData 4 J2000_EPOCH "Vector3 1 2 3"]
  have "calculatePlanetPosition inwardBody J2000_EPOCH
          = spec_computePosition inwardBody J2000_EPOCH"
    and "calculateMoonPosition inwardBody (Vector3 1 2 3) J2000_EPOCH
          = spec_satellitePosition inwardBody 45 (Vector3 1 2 3) J2000_EPOCH"
    by blast+
  then have pos: "calculatePlanetPosition inwardBody J2000_EPOCH = Vector3 15 0 0"
    and sat: "calculateMoonPosition inwardBody (Vector3 1 2 3) J2000_EPOCH = Vector3 676 2 3"
    by (simp_all only: inward_position inward_satellite)
  from k valid bad path pos sat show ?thesis by blast
qed

section \<open>The round trip between position and path\<close>

text \<open>Cosine and sine of the angle that \<open>atan2\<close> returns.\<close>

lemma arctan_polar:
  fixes a b :: real
  assumes "a \<noteq> 0"
  shows "cos (arctan (b / a)) = \<bar>a\<bar> / sqrt (a\<^sup>2 + b\<^sup>2)"
    and "sin (arctan (b / a)) = (b / a) * \<bar>a\<bar> / sqrt (a\<^sup>2 + b\<^sup>2)"
proof -
  from assms have "1 + (b / a)\<^sup>2 = (a\<^sup>2 + b\<^sup>2) / a\<^sup>2"
    by (simp add: field_simps power2_eq_square)
  then have root: "sqrt (1 + (b / a)\<^sup>2) = sqrt (a\<^sup>2 + b\<^sup>2) / \<bar>a\<bar>"
    by (simp add: real_sqrt_divide)
  show "cos (arctan (b / a)) = \<bar>a\<bar> / sqrt (a\<^sup>2 + b\<^sup>2)"
    by (simp add: cos_arctan root)
  show "sin (arctan (b / a)) = (b / a) * \<bar>a\<bar> / sqrt (a\<^sup>2 + b\<^sup>2)"
    by (simp add: sin_arctan root)
qed

lemma atan2_polar:
  fixes a b :: real
  assumes "a \<noteq> 0 \<or> b \<noteq> 0"
  shows "cos (atan2 b a) = a / sqrt (a\<^sup>2 + b\<^sup>2)"
    and "sin (atan2 b a) = b / sqrt (a\<^sup>2 + b\<^sup>2)"
proof -
  consider (pos) "0 < a" | (neg) "a < 0" | (zero) "a = 0" "b \<noteq> 0"
    using assms by fastforce
  then have "cos (atan2 b a) = a / sqrt (a\<^sup>2 + b\<^sup>2)
      \<and> sin (atan2 b a) = b / sqrt (a\<^sup>2 + b\<^sup>2)"
  proof cases
    case pos
    then show ?thesis
      by (simp add: atan2_def arctan_polar)
  next
    case neg
    then show ?thesis
      by (simp add: atan2_def arctan_polar cos_add sin_add cos_diff sin_diff)
  next
    case zero
    then have "sqrt (b\<^sup>2) = \<bar>b\<bar>" by simp
    with zero show ?thesis
      by (cases "0 < b") (simp_all add: atan2_def)
  qed
  then show "cos (atan2 b a) = a / sqrt (a\<^sup>2 + b\<^sup>2)"
    and "sin (atan2 b a) = b / sqrt (a\<^sup>2 + b\<^sup>2)"
    by simp_all
qed

lemma half_angle_map:
  fixes e h :: real
  assumes "- 1 < e" and "e < 1"
  shows "cos (2 * atan2 (sqrt (1 + e) * sin h) (sqrt (1 - e) * cos h))
           = (cos (2 * h) - e) / (1 - e * cos (2 * h))"
    and "sin (2 * atan2 (sqrt (1 + e) * sin h) (sqrt (1 - e) * cos h))
           = sqrt (1 - e\<^sup>2) * sin (2 * h) / (1 - e * cos (2 * h))"
proof -
  define A where "A = sqrt (1 + e) * sin h"
  define B where "B = sqrt (1 - e) * cos h"
  define R where "R = sqrt (B\<^sup>2 + A\<^sup>2)"
  have c2: "cos (2 * h) = (cos h)\<^sup>2 - (sin h)\<^sup>2" and s2: "sin (2 * h) = 2 * sin h * cos h"
    by (simp_all add: cos_double sin_double)
  have one: "(sin h)\<^sup>2 + (cos h)\<^sup>2 = 1" by simp
  have A2: "A\<^sup>2 = (1 + e) * (sin h)\<^sup>2" and B2: "B\<^sup>2 = (1 - e) * (cos h)\<^sup>2"
    using assms by (simp_all add: A_def B_def power_mult_distrib)
  have sum: "B\<^sup>2 + A\<^sup>2 = 1 - e * cos (2 * h)"
    unfolding A2 B2 c2 by (simp add: cos_squared_eq algebra_simps)
  have "\<bar>e * cos (2 * h)\<bar> \<le> \<bar>e\<bar> * 1"
    unfolding abs_mult by (rule mult_left_mono) simp_all
  with assms have pos: "0 < 1 - e * cos (2 * h)" by simp
  with sum have R2: "R\<^sup>2 = 1 - e * cos (2 * h)" and Rpos: "0 < R"
    by (simp_all add: R_def)
  from pos sum have "B \<noteq> 0 \<or> A \<noteq> 0"
    by (metis add.right_neutral less_irrefl zero_power2)
  then have ct: "cos (atan2 A B) = B / R" and st: "sin (atan2 A B) = A / R"
    unfolding R_def by (rule atan2_polar)+
  have "cos (2 * atan2 A B) = (B / R)\<^sup>2 - (A / R)\<^sup>2"
    by (simp add: cos_double ct st)
  also have "\<dots> = (B\<^sup>2 - A\<^sup>2) / R\<^sup>2"
    by (simp add: power_divide diff_divide_distrib)
  also have "B\<^sup>2 - A\<^sup>2 = cos (2 * h) - e"
    unfolding A2 B2 c2 by (simp add: cos_squared_eq algebra_simps)
  finally show "cos (2 * atan2 (sqrt (1 + e) * sin h) (sqrt (1 - e) * cos h))
           = (cos (2 * h) - e) / (1 - e * cos (2 * h))"
    by (simp add: A_def B_def R2)
  have prod: "sqrt (1 + e) * sqrt (1 - e) = sqrt (1 - e\<^sup>2)"
    by (simp add: real_sqrt_mult [symmetric] power2_eq_square algebra_simps)
  have "sin (2 * atan2 A B) = 2 * (A / R) * (B / R)"
    by (simp add: sin_double ct st)
  also have "\<dots> = (2 * A * B) / R\<^sup>2"
    by (simp add: power2_eq_square)
  also have "2 * A * B = sqrt (1 - e\<^sup>2) * sin (2 * h)"
    unfolding A_def B_def s2 prod [symmetric] by simp
  finally show "sin (2 * atan2 (sqrt (1 + e) * sin h) (sqrt (1 - e) * cos h))
           = sqrt (1 - e\<^sup>2) * sin (2 * h) / (1 - e * cos (2 * h))"
    by (simp add: A_def B_def R2)
qed

lemma meanAnomaly_at_instant:
  assumes "0 < orbitalPeriod elements"
  shows "spec_meanAnomaly elements (spec_instantOf elements nu)
           = spec_meanAnomalyOf (eccentricity elements) nu"
proof -
  have "spec_daysSinceEpoch (spec_instantOf elements nu)
      = (spec_meanAnomalyOf (eccentricity elements) nu
          - spec_radians (spec_element (meanLongitude elements))
          + spec_radians (spec_element (longitudePerihelion elements)))
        / (2 * pi / orbitalPeriod elements)"
    by (simp add: spec_daysSinceEpoch_def spec_instantOf_def spec_ONE_DAY_def)
  moreover from assms have "2 * pi / orbitalPeriod elements \<noteq> 0"
    by simp
  ultimately show ?thesis
    by (simp add: spec_meanAnomaly_def)
qed

lemma spec_orient_perifocal:
  "spec_orient r (nu + w) incl Omega
     = spec_orientPerifocal (r * cos nu) (r * sin nu) w incl Omega"
  by (simp add: spec_orient_def spec_orientPerifocal_def Let_def cos_add sin_add algebra_simps)

lemma position_perifocal:
  assumes "0 \<le> e" and "e < 1"
  shows "a * (1 - e * cos E) * cos (spec_trueAnomaly e E) = a * (cos E - e)"
    and "a * (1 - e * cos E) * sin (spec_trueAnomaly e E) = a * (sqrt (1 - e\<^sup>2) * sin E)"
proof -
  have "\<bar>e * cos E\<bar> \<le> \<bar>e\<bar> * 1"
    unfolding abs_mult by (rule mult_left_mono) simp_all
  with assms have nz: "1 - e * cos E \<noteq> 0" by simp
  from assms have e: "- 1 < e" "e < 1" by simp_all
  show "a * (1 - e * cos E) * cos (spec_trueAnomaly e E) = a * (cos E - e)"
    using half_angle_map(1) [OF e, of "E / 2"] nz by (simp add: spec_trueAnomaly_def)
  show "a * (1 - e * cos E) * sin (spec_trueAnomaly e E) = a * (sqrt (1 - e\<^sup>2) * sin E)"
    using half_angle_map(2) [OF e, of "E / 2"] nz by (simp add: spec_trueAnomaly_def)
qed

lemma path_perifocal:
  assumes "0 \<le> e" and "e < 1"
  shows "a * (1 - e\<^sup>2) / (1 + e * cos nu) * cos nu = a * (cos (spec_eccentricAnomalyOf e nu) - e)"
    and "a * (1 - e\<^sup>2) / (1 + e * cos nu) * sin nu
           = a * (sqrt (1 - e\<^sup>2) * sin (spec_eccentricAnomalyOf e nu))"
proof -
  have "\<bar>e * cos nu\<bar> \<le> \<bar>e\<bar> * 1"
    unfolding abs_mult by (rule mult_left_mono) simp_all
  with assms have nz: "1 + e * cos nu \<noteq> 0" by simp
  from assms have e: "- 1 < - e" "- e < 1" by simp_all
  have c: "cos (spec_eccentricAnomalyOf e nu) = (cos nu + e) / (1 + e * cos nu)"
    using half_angle_map(1) [OF e, of "nu / 2"] by (simp add: spec_eccentricAnomalyOf_def)
  have s: "sin (spec_eccentricAnomalyOf e nu) = sqrt (1 - e\<^sup>2) * sin nu / (1 + e * cos nu)"
    using half_angle_map(2) [OF e, of "nu / 2"] by (simp add: spec_eccentricAnomalyOf_def)
  from assms have nonneg: "0 \<le> 1 - e\<^sup>2"
    by (simp add: power2_eq_square mult_le_one)
  show "a * (1 - e\<^sup>2) / (1 + e * cos nu) * cos nu = a * (cos (spec_eccentricAnomalyOf e nu) - e)"
    unfolding c using nz by (simp add: field_simps power2_eq_square)
  from nonneg have "\<bar>1 - e\<^sup>2\<bar> = 1 - e\<^sup>2"
    by simp
  then show "a * (1 - e\<^sup>2) / (1 + e * cos nu) * sin nu
           = a * (sqrt (1 - e\<^sup>2) * sin (spec_eccentricAnomalyOf e nu))"
    unfolding s by simp
qed

lemma sin_lipschitz: "\<bar>sin x - sin y\<bar> \<le> \<bar>x - y\<bar>" for x y :: real
proof -
  have "\<bar>sin x - sin y\<bar> = 2 * (\<bar>sin ((x - y) / 2)\<bar> * \<bar>cos ((x + y) / 2)\<bar>)"
    by (simp add: sin_diff_sin abs_mult)
  also have "\<dots> \<le> 2 * (\<bar>(x - y) / 2\<bar> * 1)"
    by (intro mult_left_mono mult_mono abs_sin_x_le_abs_x) simp_all
  finally show ?thesis by simp
qed

lemma cos_lipschitz: "\<bar>cos x - cos y\<bar> \<le> \<bar>x - y\<bar>" for x y :: real
proof -
  have "\<bar>cos x - cos y\<bar> = 2 * (\<bar>sin ((x + y) / 2)\<bar> * \<bar>sin ((y - x) / 2)\<bar>)"
    by (simp add: cos_diff_cos abs_mult)
  also have "\<dots> \<le> 2 * (1 * \<bar>(y - x) / 2\<bar>)"
    by (intro mult_left_mono mult_mono abs_sin_x_le_abs_x) simp_all
  finally show ?thesis by simp
qed

lemma unit_factor: "\<bar>c\<bar> \<le> 1 \<Longrightarrow> \<bar>c * t\<bar> \<le> \<bar>t\<bar>" for c t :: real
  using mult_right_mono [of "\<bar>c\<bar>" 1 "\<bar>t\<bar>"] by (simp add: abs_mult)

lemma unit_pair:
  fixes c s :: real
  assumes "\<bar>c\<bar> \<le> 1" and "\<bar>s\<bar> \<le> 1"
  shows "\<bar>c * u - s * v\<bar> \<le> \<bar>u\<bar> + \<bar>v\<bar>" and "\<bar>c * u + s * v\<bar> \<le> \<bar>u\<bar> + \<bar>v\<bar>"
proof -
  have cu: "\<bar>c * u\<bar> \<le> \<bar>u\<bar>" and sv: "\<bar>s * v\<bar> \<le> \<bar>v\<bar>"
    using assms by (simp_all add: unit_factor)
  have "\<bar>c * u - s * v\<bar> \<le> \<bar>c * u\<bar> + \<bar>s * v\<bar>"
    by (rule abs_triangle_ineq4)
  also have "\<dots> \<le> \<bar>u\<bar> + \<bar>v\<bar>"
    using cu sv by (rule add_mono)
  finally show "\<bar>c * u - s * v\<bar> \<le> \<bar>u\<bar> + \<bar>v\<bar>" .
  have "\<bar>c * u + s * v\<bar> \<le> \<bar>c * u\<bar> + \<bar>s * v\<bar>"
    by (rule abs_triangle_ineq)
  also have "\<dots> \<le> \<bar>u\<bar> + \<bar>v\<bar>"
    using cu sv by (rule add_mono)
  finally show "\<bar>c * u + s * v\<bar> \<le> \<bar>u\<bar> + \<bar>v\<bar>" .
qed

lemma spec_orientPerifocal_lipschitz:
  "\<bar>vx (spec_orientPerifocal X Y w incl Omega) - vx (spec_orientPerifocal X' Y' w incl Omega)\<bar>
     \<le> 2 * (\<bar>X - X'\<bar> + \<bar>Y - Y'\<bar>)"
  "\<bar>vy (spec_orientPerifocal X Y w incl Omega) - vy (spec_orientPerifocal X' Y' w incl Omega)\<bar>
     \<le> 2 * (\<bar>X - X'\<bar> + \<bar>Y - Y'\<bar>)"
  "\<bar>vz (spec_orientPerifocal X Y w incl Omega) - vz (spec_orientPerifocal X' Y' w incl Omega)\<bar>
     \<le> 2 * (\<bar>X - X'\<bar> + \<bar>Y - Y'\<bar>)"
proof -
  define d where "d = \<bar>X - X'\<bar> + \<bar>Y - Y'\<bar>"
  define P where "P = cos w * (X - X') - sin w * (Y - Y')"
  define Q where "Q = cos w * (Y - Y') + sin w * (X - X')"
  define Q' where "Q' = cos incl * Q"
  have P: "\<bar>P\<bar> \<le> d"
    unfolding P_def d_def by (rule unit_pair) simp_all
  have "\<bar>Q\<bar> \<le> \<bar>Y - Y'\<bar> + \<bar>X - X'\<bar>"
    unfolding Q_def by (rule unit_pair) simp_all
  then have Q: "\<bar>Q\<bar> \<le> d"
    by (simp add: d_def add.commute)
  have "\<bar>Q'\<bar> \<le> \<bar>Q\<bar>"
    unfolding Q'_def by (rule unit_factor) simp
  with Q have Q': "\<bar>Q'\<bar> \<le> d" by simp
  have x: "vx (spec_orientPerifocal X Y w incl Omega) - vx (spec_orientPerifocal X' Y' w incl Omega)
      = cos Omega * P - sin Omega * Q'"
    and y: "vy (spec_orientPerifocal X Y w incl Omega) - vy (spec_orientPerifocal X' Y' w incl Omega)
      = sin incl * Q"
    and z: "vz (spec_orientPerifocal X Y w incl Omega) - vz (spec_orientPerifocal X' Y' w incl Omega)
      = sin Omega * P + cos Omega * Q'"
    by (simp_all add: spec_orientPerifocal_def Let_def P_def Q_def Q'_def algebra_simps)
  have "\<bar>cos Omega * P - sin Omega * Q'\<bar> \<le> \<bar>P\<bar> + \<bar>Q'\<bar>"
    by (rule unit_pair) simp_all
  with P Q' show "\<bar>vx (spec_orientPerifocal X Y w incl Omega)
      - vx (spec_orientPerifocal X' Y' w incl Omega)\<bar> \<le> 2 * (\<bar>X - X'\<bar> + \<bar>Y - Y'\<bar>)"
    unfolding x d_def [symmetric] by simp
  have "\<bar>sin incl * Q\<bar> \<le> \<bar>Q\<bar>"
    by (rule unit_factor) simp
  moreover have "0 \<le> d" by (simp add: d_def)
  ultimately show "\<bar>vy (spec_orientPerifocal X Y w incl Omega)
      - vy (spec_orientPerifocal X' Y' w incl Omega)\<bar> \<le> 2 * (\<bar>X - X'\<bar> + \<bar>Y - Y'\<bar>)"
    unfolding y d_def [symmetric] using Q by simp
  have "\<bar>sin Omega * P + cos Omega * Q'\<bar> \<le> \<bar>P\<bar> + \<bar>Q'\<bar>"
    by (rule unit_pair) simp_all
  with P Q' show "\<bar>vz (spec_orientPerifocal X Y w incl Omega)
      - vz (spec_orientPerifocal X' Y' w incl Omega)\<bar> \<le> 2 * (\<bar>X - X'\<bar> + \<bar>Y - Y'\<bar>)"
    unfolding z d_def [symmetric] by simp
qed

lemma position_at_instant:
  assumes "validElements elements"
  shows "calculatePlanetPosition elements (spec_instantOf elements nu) =
     spec_orientPerifocal
       (spec_displayAxis elements *
          (cos (keplerLoop 0 (eccentricity elements)
                  (spec_meanAnomalyOf (eccentricity elements) nu)
                  (spec_meanAnomalyOf (eccentricity elements) nu))
           - eccentricity elements))
       (spec_displayAxis elements *
          (sqrt (1 - (eccentricity elements)\<^sup>2) *
           sin (keplerLoop 0 (eccentricity elements)
                  (spec_meanAnomalyOf (eccentricity elements) nu)
                  (spec_meanAnomalyOf (eccentricity elements) nu))))
       (spec_radians (spec_element (longitudePerihelion elements))
          - spec_radians (spec_element (longitudeNode elements)))
       (spec_radians (spec_element (inclination elements)))
       (spec_radians (spec_element (longitudeNode elements)))"
proof -
  from assms have e: "0 \<le> eccentricity elements" "eccentricity elements < 1"
    and P: "0 < orbitalPeriod elements"
    by (simp_all add: validElements_def)
  show ?thesis
    unfolding calculatePlanetPosition_formula spec_computePosition_def Let_def
      meanAnomaly_at_instant [OF P] keplerLoop_solve [symmetric] spec_argument_def
      spec_orient_perifocal position_perifocal [OF e]
    by (rule refl)
qed

lemma path_point_perifocal:
  assumes "validElements elements"
  shows "spec_pathPoint elements N i =
     spec_orientPerifocal
       (spec_displayAxis elements *
          (cos (spec_eccentricAnomalyOf (eccentricity elements) (spec_sampleAnomaly N i))
           - eccentricity elements))
       (spec_displayAxis elements *
          (sqrt (1 - (eccentricity elements)\<^sup>2) *
           sin (spec_eccentricAnomalyOf (eccentricity elements) (spec_sampleAnomaly N i))))
       (spec_radians (spec_element (longitudePerihelion elements))
          - spec_radians (spec_element (longitudeNode elements)))
       (spec_radians (spec_element (inclination elements)))
       (spec_radians (spec_element (longitudeNode elements)))"
proof -
  from assms have e: "0 \<le> eccentricity elements" "eccentricity elements < 1"
    by (simp_all add: validElements_def)
  show ?thesis
    unfolding spec_pathPoint_def Let_def spec_argument_def spec_orient_perifocal
      spec_sampleAnomaly_def [symmetric] path_perifocal [OF e]
    by (rule refl)
qed

lemma generateOrbitPath_nth:
  assumes "i \<le> N"
  shows "generateOrbitPath elements N ! i = spec_pathPoint elements N i"
proof -
  from assms have "i < length [0..<Suc N]" by simp
  then have "generateOrbitPath elements N ! i = spec_pathPoint elements N ([0..<Suc N] ! i)"
    unfolding generateOrbitPath_formula by (rule nth_map)
  also from assms have "[0..<Suc N] ! i = i"
    using nth_upt [of 0 i "Suc N"] by simp
  finally show ?thesis .
qed

lemma circular_solve_exact: "keplerSolveError 0 nu = 0"
proof -
  have "keplerLoop 0 0 M M = M" for M
    by (subst keplerLoop.simps) (simp add: Let_def)
  then show ?thesis
    by (simp add: keplerSolveError_def spec_meanAnomalyOf_def)
qed

lemma round_trip_up_to_solver_error:
  assumes "validElements elements" and "1 \<le> N" and "i \<le> N"
  shows "\<bar>vx (roundTripPosition elements N i) - vx (generateOrbitPath elements N ! i)\<bar>
           \<le> 4 * \<bar>spec_displayAxis elements\<bar>
                * keplerSolveError (eccentricity elements) (spec_sampleAnomaly N i)
       \<and> \<bar>vy (roundTripPosition elements N i) - vy (generateOrbitPath elements N ! i)\<bar>
           \<le> 4 * \<bar>spec_displayAxis elements\<bar>
                * keplerSolveError (eccentricity elements) (spec_sampleAnomaly N i)
       \<and> \<bar>vz (roundTripPosition elements N i) - vz (generateOrbitPath elements N ! i)\<bar>
           \<le> 4 * \<bar>spec_displayAxis elements\<bar>
                * keplerSolveError (eccentricity elements) (spec_sampleAnomaly N i)
       \<and> (eccentricity elements = 0 \<longrightarrow>
            roundTripPosition elements N i = generateOrbitPath elements N ! i)"
proof -
  define e where "e = eccentricity elements"
  define a where "a = spec_displayAxis elements"
  define nu where "nu = spec_sampleAnomaly N i"
  define E where "E = keplerLoop 0 e (spec_meanAnomalyOf e nu) (spec_meanAnomalyOf e nu)"
  define E' where "E' = spec_eccentricAnomalyOf e nu"
  define err where "err = keplerSolveError e nu"
  define p where "p = roundTripPosition elements N i"
  define q where "q = generateOrbitPath elements N ! i"
  have err: "err = \<bar>E - E'\<bar>"
    by (simp add: err_def keplerSolveError_def E_def E'_def)
  from assms(1) have "0 \<le> e" "e < 1"
    by (simp_all add: validElements_def e_def)
  then have "0 \<le> 1 - e\<^sup>2" "1 - e\<^sup>2 \<le> 1"
    by (simp_all add: power2_eq_square mult_le_one)
  then have root: "\<bar>sqrt (1 - e\<^sup>2)\<bar> \<le> 1"
    by (simp add: real_le_lsqrt)
  have "\<bar>a * (cos E - e) - a * (cos E' - e)\<bar> = \<bar>a\<bar> * \<bar>cos E - cos E'\<bar>"
    by (simp add: abs_mult [symmetric] algebra_simps)
  also have "\<dots> \<le> \<bar>a\<bar> * err"
    unfolding err by (intro mult_left_mono cos_lipschitz) simp
  finally have dX: "\<bar>a * (cos E - e) - a * (cos E' - e)\<bar> \<le> \<bar>a\<bar> * err" .
  have "\<bar>a * (sqrt (1 - e\<^sup>2) * sin E) - a * (sqrt (1 - e\<^sup>2) * sin E')\<bar>
      = \<bar>a\<bar> * \<bar>sqrt (1 - e\<^sup>2) * (sin E - sin E')\<bar>"
    by (simp add: abs_mult [symmetric] algebra_simps)
  also have "\<dots> \<le> \<bar>a\<bar> * \<bar>sin E - sin E'\<bar>"
    by (intro mult_left_mono unit_factor root) simp
  also have "\<dots> \<le> \<bar>a\<bar> * err"
    unfolding err by (intro mult_left_mono sin_lipschitz) simp
  finally have dY: "\<bar>a * (sqrt (1 - e\<^sup>2) * sin E) - a * (sqrt (1 - e\<^sup>2) * sin E')\<bar>
      \<le> \<bar>a\<bar> * err" .
  from dX dY have total:
    "2 * (\<bar>a * (cos E - e) - a * (cos E' - e)\<bar>
        + \<bar>a * (sqrt (1 - e\<^sup>2) * sin E) - a * (sqrt (1 - e\<^sup>2) * sin E')\<bar>)
      \<le> 4 * \<bar>a\<bar> * err"
    by simp
  have p: "p = spec_orientPerifocal (a * (cos E - e)) (a * (sqrt (1 - e\<^sup>2) * sin E))
      (spec_radians (spec_element (longitudePerihelion elements))
          - spec_radians (spec_element (longitudeNode elements)))
      (spec_radians (spec_element (inclination elements)))
      (spec_radians (spec_element (longitudeNode elements)))"
    unfolding p_def roundTripPosition_def position_at_instant [OF assms(1)]
      a_def e_def E_def nu_def by (rule refl)
  have q: "q = spec_orientPerifocal (a * (cos E' - e)) (a * (sqrt (1 - e\<^sup>2) * sin E'))
      (spec_radians (spec_element (longitudePerihelion elements))
          - spec_radians (spec_element (longitudeNode elements)))
      (spec_radians (spec_element (inclination elements)))
      (spec_radians (spec_element (longitudeNode elements)))"
    unfolding q_def generateOrbitPath_nth [OF assms(3)] path_point_perifocal [OF assms(1)]
      a_def e_def E'_def nu_def by (rule refl)
  have x: "\<bar>vx p - vx q\<bar> \<le> 4 * \<bar>a\<bar> * err"
    and y: "\<bar>vy p - vy q\<bar> \<le> 4 * \<bar>a\<bar> * err"
    and z: "\<bar>vz p - vz q\<bar> \<le> 4 * \<bar>a\<bar> * err"
    unfolding p q
    by (rule order_trans [OF spec_orientPerifocal_lipschitz(1) total],
        rule order_trans [OF spec_orientPerifocal_lipschitz(2) total],
        rule order_trans [OF spec_orientPerifocal_lipschitz(3) total])
  have "p = q" if "e = 0"
  proof -
    from that have "err = 0"
      by (simp add: err_def circular_solve_exact)
    with x y z have "vx p = vx q" "vy p = vy q" "vz p = vz q"
      by simp_all
    then show ?thesis
      by (rule Vector3.expand [OF conjI [OF _ conjI]])
  qed
  with x y z show ?thesis
    unfolding p_def q_def a_def e_def err_def nu_def by blast
qed

end
